theory Spec2Isabelle
  imports Main "HOL-Library.AList"
begin

section \<open>JSON values and the JavaScript coercions the handlers use\<close>

text \<open>
  Tool arguments, the \<open>custom_fields\<close> column and joined rows are JSON. Numbers are
  modelled as integers (exact in an IEEE double below \<open>2^53\<close>); fractions are outside
  the embedding. A JavaScript \<open>undefined\<close> is \<open>None\<close> of an option type.
\<close>

datatype json =
    JNull
  | JBool bool
  | JNum int
  | JStr string
  | JArr "json list"
  | JObj "(string \<times> json) list"

text \<open>JavaScript truthiness, as \<open>if (v)\<close>, \<open>v || d\<close> and \<open>!v\<close> read it.\<close>

fun truthy :: "json \<Rightarrow> bool" where
  "truthy JNull = False"
| "truthy (JBool b) = b"
| "truthy (JNum n) = (n \<noteq> 0)"
| "truthy (JStr s) = (s \<noteq> [])"
| "truthy (JArr xs) = True"
| "truthy (JObj kvs) = True"

definition truthy_str :: "string option \<Rightarrow> bool" where
  "truthy_str v = (case v of None \<Rightarrow> False | Some s \<Rightarrow> s \<noteq> [])"

text \<open>\<open>if (v) query = query.eq(column, v)\<close>: the filter a truthy value gives.\<close>

definition when_truthy :: "string option \<Rightarrow> string option" where
  "when_truthy v = (if truthy_str v then v else None)"

text \<open>\<open>`${v}`\<close> for a string that may be undefined.\<close>

definition tpl :: "string option \<Rightarrow> string" where
  "tpl v = (case v of None \<Rightarrow> ''undefined'' | Some s \<Rightarrow> s)"

text \<open>Decimal digits of a natural number: the keys of an array or string under spread.\<close>

function string_of_nat :: "nat \<Rightarrow> string" where
  "string_of_nat n =
     (if n < 10 then [''0123456789'' ! n]
      else string_of_nat (n div 10) @ [''0123456789'' ! (n mod 10)])"
  by pat_completeness auto
termination
  by (relation "measure id") auto

text \<open>The own enumerable properties that \<open>{...v}\<close> copies from a value.\<close>

fun own_enumerable :: "json \<Rightarrow> (string \<times> json) list" where
  "own_enumerable (JObj kvs) = kvs"
| "own_enumerable (JArr xs) = zip (map string_of_nat [0..<length xs]) xs"
| "own_enumerable (JStr s) = zip (map string_of_nat [0..<length s]) (map (\<lambda>c. JStr [c]) s)"
| "own_enumerable v = []"

text \<open>
  Assigning properties in order: an existing key keeps its place, a new one is appended.
  (JavaScript lists integer-like keys first; no statement here depends on the order of
  the keys, only on the value under each key.)
\<close>

definition assign :: "(string \<times> json) list \<Rightarrow> (string \<times> json) list \<Rightarrow> (string \<times> json) list" where
  "assign target src = fold (\<lambda>(k, v). AList.update k v) src target"

text \<open>\<open>{ ...(cur || {}), ...upd }\<close>, with \<open>cur\<close> and \<open>upd\<close> possibly undefined.\<close>

definition spread_merge :: "json option \<Rightarrow> (string \<times> json) list option \<Rightarrow> (string \<times> json) list" where
  "spread_merge cur upd =
     assign
       (assign [] (own_enumerable (case cur of None \<Rightarrow> JObj [] | Some c \<Rightarrow> if truthy c then c else JObj [])))
       (case upd of None \<Rightarrow> [] | Some kvs \<Rightarrow> kvs)"

section \<open>The backend: tables, requests and their answers\<close>

text \<open>
  The relational backend is an external service. It is modelled as typed tables in a
  record, with the requests the handlers issue as functions on it; every request is
  appended to \<open>calls\<close>, so that a statement can say which requests a handler made.
  Constraints of the backend's schema other than the typing of the columns are not
  modelled, and a request fails only where the request itself says so (\<open>.single()\<close>
  on a number of rows other than one, a negative limit).
\<close>

record pipeline_stage =
  ps_id :: string
  ps_slug :: string
  ps_name :: string
  ps_color :: string
  ps_position :: int

record lead =
  l_id :: string
  l_name :: "string option"
  l_phone :: "string option"
  l_email :: "string option"
  l_stage_id :: "string option"
  l_vendedor_id :: "string option"
  l_custom_fields :: json
  l_notes :: "string option"
  l_position :: int
  l_created_at :: nat

record profile =
  pr_id :: string
  pr_full_name :: string
  pr_role :: string

record catalog_entry =
  pc_id :: string
  pc_product_name :: string
  pc_description :: "string option"
  pc_category :: "string option"
  pc_active :: bool
  pc_price :: int

record history_entry =
  lh_id :: string
  lh_lead_id :: string
  lh_description :: string
  lh_changed_by :: "string option"
  lh_created_at :: nat

datatype table = Leads | PipelineStages | PriceCatalog | LeadHistory

datatype call = Select table | Count table | Update table | Insert table

record db =
  pipeline_stages :: "pipeline_stage list"
  leads :: "lead list"
  profiles :: "profile list"
  price_catalog :: "catalog_entry list"
  lead_history :: "history_entry list"
  calls :: "call list"
  gen_id :: "nat \<Rightarrow> string"
  tick :: nat

definition log_call :: "call \<Rightarrow> db \<Rightarrow> db" where
  "log_call c d = d\<lparr>calls := calls d @ [c]\<rparr>"

text \<open>The message of the backend when \<open>.single()\<close> does not find exactly one row.\<close>

definition PGRST116 :: string where
  "PGRST116 = ''JSON object requested, multiple (or no) rows returned''"

text \<open>\<open>{ data, error }\<close> of a request: \<open>Inl\<close> the error's message, \<open>Inr\<close> the data.\<close>

definition single :: "'a list \<Rightarrow> string + 'a" where
  "single rows = (case rows of [r] \<Rightarrow> Inr r | _ \<Rightarrow> Inl PGRST116)"

text \<open>A lead as a request returns it: its columns and the embedded resources selected.\<close>

record lead_view =
  lv_row :: lead
  lv_joined :: "(string \<times> json) list"

definition stage_col :: "pipeline_stage \<Rightarrow> string \<Rightarrow> json" where
  "stage_col s c =
     (if c = ''name'' then JStr (ps_name s)
      else if c = ''slug'' then JStr (ps_slug s)
      else if c = ''color'' then JStr (ps_color s)
      else if c = ''position'' then JNum (ps_position s)
      else JStr (ps_id s))"

definition profile_col :: "profile \<Rightarrow> string \<Rightarrow> json" where
  "profile_col p c =
     (if c = ''full_name'' then JStr (pr_full_name p)
      else if c = ''role'' then JStr (pr_role p)
      else JStr (pr_id p))"

text \<open>\<open>stage:pipeline_stages(cols)\<close>: the stage the lead's \<open>stage_id\<close> refers to, or null.\<close>

definition stage_of :: "db \<Rightarrow> lead \<Rightarrow> pipeline_stage option" where
  "stage_of d l = find (\<lambda>s. Some (ps_id s) = l_stage_id l) (pipeline_stages d)"

definition embed_stage :: "string list \<Rightarrow> db \<Rightarrow> lead \<Rightarrow> json" where
  "embed_stage cols d l =
     (case stage_of d l of
        None \<Rightarrow> JNull
      | Some s \<Rightarrow> JObj (map (\<lambda>c. (c, stage_col s c)) cols))"

definition embed_profile :: "string list \<Rightarrow> db \<Rightarrow> string option \<Rightarrow> json" where
  "embed_profile cols d ref =
     (case find (\<lambda>p. Some (pr_id p) = ref) (profiles d) of
        None \<Rightarrow> JNull
      | Some p \<Rightarrow> JObj (map (\<lambda>c. (c, profile_col p c)) cols))"

definition view_plain :: "db \<Rightarrow> lead \<Rightarrow> lead_view" where
  "view_plain d l = \<lparr>lv_row = l, lv_joined = []\<rparr>"

definition view_stage :: "string list \<Rightarrow> db \<Rightarrow> lead \<Rightarrow> lead_view" where
  "view_stage cols d l = \<lparr>lv_row = l, lv_joined = [(''stage'', embed_stage cols d l)]\<rparr>"

definition view_stage_vendedor :: "db \<Rightarrow> lead \<Rightarrow> lead_view" where
  "view_stage_vendedor d l =
     \<lparr>lv_row = l,
      lv_joined = [(''stage'', embed_stage [''name'', ''slug'', ''color''] d l),
                   (''vendedor'', embed_profile [''full_name'', ''role''] d (l_vendedor_id l))]\<rparr>"

text \<open>\<open>from("pipeline_stages").select(..).eq("slug", v).single()\<close>\<close>

definition select_stage_by_slug :: "string \<Rightarrow> db \<Rightarrow> (string + pipeline_stage) \<times> db" where
  "select_stage_by_slug v d =
     (single (filter (\<lambda>s. ps_slug s = v) (pipeline_stages d)), log_call (Select PipelineStages) d)"

text \<open>\<open>from("leads").select("custom_fields").eq("id", v).single()\<close>\<close>

definition select_lead_custom_fields :: "string \<Rightarrow> db \<Rightarrow> (string + json) \<times> db" where
  "select_lead_custom_fields v d =
     (map_sum id l_custom_fields (single (filter (\<lambda>l. l_id l = v) (leads d))),
      log_call (Select Leads) d)"

text \<open>
  \<open>from("leads").update(f).eq("id", v).select(..).single()\<close>: the rows with that id are
  updated and returned; when they are not exactly one, the request fails and the backend
  rolls the update back.
\<close>

definition update_lead_by_id ::
  "string \<Rightarrow> (lead \<Rightarrow> lead) \<Rightarrow> (db \<Rightarrow> lead \<Rightarrow> lead_view) \<Rightarrow> db \<Rightarrow> (string + lead_view) \<times> db" where
  "update_lead_by_id v f view d =
     (case filter (\<lambda>l. l_id l = v) (leads d) of
        [l] \<Rightarrow>
          (let d' = log_call (Update Leads) (d\<lparr>leads := map (\<lambda>r. if l_id r = v then f r else r) (leads d)\<rparr>)
           in (Inr (view d' (f l)), d'))
      | _ \<Rightarrow> (Inl PGRST116, log_call (Update Leads) d))"

section \<open>Errors, arguments and results\<close>

text \<open>
  A thrown \<open>Error\<close> is a value; the constructor is the kind of failure the throwing
  line stands for and carries the message of the \<open>Error\<close>. A validation error lists
  its issues as (field, constraint).
\<close>

datatype error =
    ValidationError "(string \<times> string) list"
  | UnknownTool string
  | StageNotFound string
  | LeadNotFound string
  | BackendError string
  | TypeError string
  | InvalidRequest string

text \<open>
  The argument object of a tool call, as the handlers read it: every field may be
  undefined. A handler reads the fields of its own tool only.
\<close>

record params =
  stage_slug :: "string option"
  vendedor_id :: "string option"
  limit :: "int option"
  lead_id :: "string option"
  new_stage_slug :: "string option"
  custom_fields :: "(string \<times> json) list option"
  name :: "string option"
  phone :: "string option"
  email :: "string option"
  notes' :: "string option"
  query :: "string option"
  category :: "string option"

definition no_params :: params where
  "no_params =
     \<lparr>stage_slug = None, vendedor_id = None, limit = None, lead_id = None,
      new_stage_slug = None, custom_fields = None, name = None, phone = None,
      email = None, notes' = None, query = None, category = None\<rparr>"

text \<open>The number a statistic accumulates: \<open>NaN\<close> once a non-numeric value was added.\<close>

datatype number = Num int | NaN

record stat =
  st_count :: nat
  st_total_value :: number
  st_stage_name :: "string option"

record history_view =
  hv_row :: history_entry
  hv_changed_by :: json

datatype result =
    Rows "lead_view list"
  | Mutation "string option" lead_view
  | Catalog "catalog_entry list"
  | History "history_view list"
  | Stats "(string \<times> stat) list"

section \<open>update_lead_custom_fields\<close>

text \<open>index.ts (standard streams)\<close>

definition updateLeadCustomFields_stdio :: "params \<Rightarrow> db \<Rightarrow> (error + result) \<times> db" where
  "updateLeadCustomFields_stdio p d =
     (case select_lead_custom_fields (tpl (lead_id p)) d of
        (Inl fetchError, d1) \<Rightarrow> (Inl (LeadNotFound (''Lead not found: '' @ tpl (lead_id p))), d1)
      | (Inr current, d1) \<Rightarrow>
          (case update_lead_by_id (tpl (lead_id p))
                  (\<lambda>l. l\<lparr>l_custom_fields := JObj (spread_merge (Some current) (custom_fields p))\<rparr>)
                  view_plain d1 of
             (Inl msg, d2) \<Rightarrow> (Inl (BackendError (''Failed to update custom fields: '' @ msg)), d2)
           | (Inr data, d2) \<Rightarrow> (Inr (Mutation (Some ''Custom fields updated'') data), d2)))"

text \<open>server.ts (HTTP) and the event-stream server: no check of the fetch.\<close>

definition updateLeadCustomFields_http :: "params \<Rightarrow> db \<Rightarrow> (error + result) \<times> db" where
  "updateLeadCustomFields_http p d =
     (case select_lead_custom_fields (tpl (lead_id p)) d of
        (current, d1) \<Rightarrow>
          (case update_lead_by_id (tpl (lead_id p))
                  (\<lambda>l. l\<lparr>l_custom_fields :=
                       JObj (spread_merge (case current of Inl e \<Rightarrow> None | Inr c \<Rightarrow> Some c) (custom_fields p))\<rparr>)
                  view_plain d1 of
             (Inl msg, d2) \<Rightarrow> (Inl (BackendError msg), d2)
           | (Inr data, d2) \<Rightarrow> (Inr (Mutation None data), d2)))"

definition updateLeadCustomFields_sse :: "params \<Rightarrow> db \<Rightarrow> (error + result) \<times> db" where
  "updateLeadCustomFields_sse p d =
     (case select_lead_custom_fields (tpl (lead_id p)) d of
        (current, d1) \<Rightarrow>
          (case update_lead_by_id (tpl (lead_id p))
                  (\<lambda>l. l\<lparr>l_custom_fields :=
                       JObj (spread_merge (case current of Inl e \<Rightarrow> None | Inr c \<Rightarrow> Some c) (custom_fields p))\<rparr>)
                  view_plain d1 of
             (Inl msg, d2) \<Rightarrow> (Inl (BackendError msg), d2)
           | (Inr data, d2) \<Rightarrow> (Inr (Mutation None data), d2)))"

section \<open>get_leads\<close>

text \<open>\<open>params.limit || dflt\<close>: an undefined or zero limit gives the default.\<close>

definition or_default :: "int option \<Rightarrow> int \<Rightarrow> int" where
  "or_default v dflt = (case v of None \<Rightarrow> dflt | Some n \<Rightarrow> if n \<noteq> 0 then n else dflt)"

text \<open>The message of the backend for a negative limit.\<close>

definition PGRST103 :: string where
  "PGRST103 = ''Requested range not satisfiable''"

text \<open>\<open>.order("created_at", { ascending: false })\<close>\<close>

definition newest_first :: "('a \<Rightarrow> nat) \<Rightarrow> 'a list \<Rightarrow> 'a list" where
  "newest_first created rows = rev (sort_key created rows)"

text \<open>\<open>.limit(n)\<close>, applied by the backend after the filters and the order.\<close>

definition limit_rows :: "int \<Rightarrow> 'a list \<Rightarrow> string + 'a list" where
  "limit_rows n rows = (if n < 0 then Inl PGRST103 else Inr (take (nat n) rows))"

definition opt_eq :: "'a option \<Rightarrow> 'a \<Rightarrow> bool" where
  "opt_eq filter_value column = (case filter_value of None \<Rightarrow> True | Some v \<Rightarrow> column = v)"

text \<open>
  \<open>from("leads").select("*, stage:pipeline_stages(name, slug, color),
  vendedor:profiles(full_name, role)").order(..).limit(n)\<close> with the optional filters
  \<open>.eq("stage_id", sid)\<close> and \<open>.eq("vendedor_id", vid)\<close>.
\<close>

definition select_leads ::
  "int \<Rightarrow> string option \<Rightarrow> string option \<Rightarrow> db \<Rightarrow> (string + lead_view list) \<times> db" where
  "select_leads n sid vid d =
     (map_sum id (map (view_stage_vendedor d))
        (limit_rows n
           (newest_first l_created_at
              (filter (\<lambda>l. opt_eq (map_option Some sid) (l_stage_id l) \<and>
                           opt_eq (map_option Some vid) (l_vendedor_id l)) (leads d)))),
      log_call (Select Leads) d)"

text \<open>The stage filter of get_leads: resolved only for a truthy slug, dropped when unresolved.\<close>

definition resolve_stage_filter :: "string option \<Rightarrow> db \<Rightarrow> string option \<times> db" where
  "resolve_stage_filter slug d =
     (if truthy_str slug then
        (case select_stage_by_slug (tpl slug) d of
           (Inr stage, d1) \<Rightarrow> (Some (ps_id stage), d1)
         | (Inl e, d1) \<Rightarrow> (None, d1))
      else (None, d))"

definition getLeads_stdio :: "params \<Rightarrow> db \<Rightarrow> (error + result) \<times> db" where
  "getLeads_stdio p d =
     (case resolve_stage_filter (stage_slug p) d of
        (sid, d1) \<Rightarrow>
          (case select_leads (or_default (limit p) 50) sid
                  (when_truthy (vendedor_id p)) d1 of
             (Inl msg, d2) \<Rightarrow> (Inl (BackendError (''Failed to fetch leads: '' @ msg)), d2)
           | (Inr data, d2) \<Rightarrow> (Inr (Rows data), d2)))"

definition getLeads_http :: "params \<Rightarrow> db \<Rightarrow> (error + result) \<times> db" where
  "getLeads_http p d =
     (case resolve_stage_filter (stage_slug p) d of
        (sid, d1) \<Rightarrow>
          (case select_leads (or_default (limit p) 50) sid
                  (when_truthy (vendedor_id p)) d1 of
             (Inl msg, d2) \<Rightarrow> (Inl (BackendError msg), d2)
           | (Inr data, d2) \<Rightarrow> (Inr (Rows data), d2)))"

definition getLeads_sse :: "params \<Rightarrow> db \<Rightarrow> (error + result) \<times> db" where
  "getLeads_sse p d =
     (case resolve_stage_filter (stage_slug p) d of
        (sid, d1) \<Rightarrow>
          (case select_leads (or_default (limit p) 50) sid
                  (when_truthy (vendedor_id p)) d1 of
             (Inl msg, d2) \<Rightarrow> (Inl (BackendError msg), d2)
           | (Inr data, d2) \<Rightarrow> (Inr (Rows data), d2)))"

section \<open>update_lead_stage\<close>

definition updateLeadStage_stdio :: "params \<Rightarrow> db \<Rightarrow> (error + result) \<times> db" where
  "updateLeadStage_stdio p d =
     (case select_stage_by_slug (tpl (new_stage_slug p)) d of
        (Inl stageError, d1) \<Rightarrow> (Inl (StageNotFound (''Stage not found: '' @ tpl (new_stage_slug p))), d1)
      | (Inr stage, d1) \<Rightarrow>
          (case update_lead_by_id (tpl (lead_id p)) (\<lambda>l. l\<lparr>l_stage_id := Some (ps_id stage)\<rparr>)
                  (view_stage [''name'', ''slug'']) d1 of
             (Inl msg, d2) \<Rightarrow> (Inl (BackendError (''Failed to update lead: '' @ msg)), d2)
           | (Inr data, d2) \<Rightarrow> (Inr (Mutation (Some (''Lead moved to '' @ ps_name stage)) data), d2)))"

definition updateLeadStage_http :: "params \<Rightarrow> db \<Rightarrow> (error + result) \<times> db" where
  "updateLeadStage_http p d =
     (case select_stage_by_slug (tpl (new_stage_slug p)) d of
        (Inl stageError, d1) \<Rightarrow> (Inl (StageNotFound (''Stage not found: '' @ tpl (new_stage_slug p))), d1)
      | (Inr stage, d1) \<Rightarrow>
          (case update_lead_by_id (tpl (lead_id p)) (\<lambda>l. l\<lparr>l_stage_id := Some (ps_id stage)\<rparr>)
                  (view_stage [''name'', ''slug'']) d1 of
             (Inl msg, d2) \<Rightarrow> (Inl (BackendError msg), d2)
           | (Inr data, d2) \<Rightarrow> (Inr (Mutation (Some (''Lead moved to '' @ ps_name stage)) data), d2)))"

definition updateLeadStage_sse :: "params \<Rightarrow> db \<Rightarrow> (error + result) \<times> db" where
  "updateLeadStage_sse p d =
     (case select_stage_by_slug (tpl (new_stage_slug p)) d of
        (Inl stageError, d1) \<Rightarrow> (Inl (StageNotFound (''Stage not found: '' @ tpl (new_stage_slug p))), d1)
      | (Inr stage, d1) \<Rightarrow>
          (case update_lead_by_id (tpl (lead_id p)) (\<lambda>l. l\<lparr>l_stage_id := Some (ps_id stage)\<rparr>)
                  view_plain d1 of
             (Inl msg, d2) \<Rightarrow> (Inl (BackendError msg), d2)
           | (Inr data, d2) \<Rightarrow> (Inr (Mutation (Some (''Lead moved to '' @ ps_name stage)) data), d2)))"

section \<open>create_lead\<close>

text \<open>\<open>params.stage_slug || "lead"\<close>\<close>

definition slug_or_lead :: "string option \<Rightarrow> string" where
  "slug_or_lead v = (if truthy_str v then tpl v else ''lead'')"

text \<open>
  \<open>from("leads").select("*", { count: "exact", head: true }).eq("stage_id", sid)\<close>: the
  number of leads in a stage. The event-stream server leaves \<open>head\<close> out, which returns
  the rows beside the same count.
\<close>

definition count_leads_in_stage :: "string \<Rightarrow> db \<Rightarrow> nat \<times> db" where
  "count_leads_in_stage sid d =
     (length (filter (\<lambda>l. l_stage_id l = Some sid) (leads d)), log_call (Count Leads) d)"

text \<open>
  \<open>from("leads").insert(row).select().single()\<close>: the backend gives the row its id and
  its creation time, appends it and returns it.
\<close>

definition insert_lead :: "lead \<Rightarrow> db \<Rightarrow> (string + lead_view) \<times> db" where
  "insert_lead row d =
     (let r = row\<lparr>l_id := gen_id d (tick d), l_created_at := tick d\<rparr>;
          d' = log_call (Insert Leads) (d\<lparr>leads := leads d @ [r], tick := Suc (tick d)\<rparr>)
      in (Inr (view_plain d' r), d'))"

text \<open>The row createLead sends: the position is the count, the rest comes from the arguments.\<close>

definition new_lead :: "params \<Rightarrow> string \<Rightarrow> nat \<Rightarrow> lead" where
  "new_lead p sid count =
     \<lparr>l_id = [], l_name = name p, l_phone = phone p, l_email = email p,
      l_stage_id = Some sid, l_vendedor_id = vendedor_id p,
      l_custom_fields = JObj (case custom_fields p of None \<Rightarrow> [] | Some kvs \<Rightarrow> kvs),
      l_notes = notes' p, l_position = int count, l_created_at = 0\<rparr>"

definition createLead_stdio :: "params \<Rightarrow> db \<Rightarrow> (error + result) \<times> db" where
  "createLead_stdio p d =
     (case select_stage_by_slug (slug_or_lead (stage_slug p)) d of
        (Inl e, d1) \<Rightarrow> (Inl (StageNotFound (''Stage not found: '' @ tpl (stage_slug p))), d1)
      | (Inr stage, d1) \<Rightarrow>
          (case count_leads_in_stage (ps_id stage) d1 of
             (count, d2) \<Rightarrow>
               (case insert_lead (new_lead p (ps_id stage) count) d2 of
                  (Inl msg, d3) \<Rightarrow> (Inl (BackendError (''Failed to create lead: '' @ msg)), d3)
                | (Inr data, d3) \<Rightarrow>
                    (Inr (Mutation (Some (''Lead '' @ [CHR 0x22] @ tpl (name p) @ [CHR 0x22] @
                                           '' created successfully'')) data), d3))))"

definition createLead_http :: "params \<Rightarrow> db \<Rightarrow> (error + result) \<times> db" where
  "createLead_http p d =
     (case select_stage_by_slug (slug_or_lead (stage_slug p)) d of
        (Inl e, d1) \<Rightarrow> (Inl (StageNotFound ''Stage not found''), d1)
      | (Inr stage, d1) \<Rightarrow>
          (case count_leads_in_stage (ps_id stage) d1 of
             (count, d2) \<Rightarrow>
               (case insert_lead (new_lead p (ps_id stage) count) d2 of
                  (Inl msg, d3) \<Rightarrow> (Inl (BackendError msg), d3)
                | (Inr data, d3) \<Rightarrow> (Inr (Mutation None data), d3))))"

definition createLead_sse :: "params \<Rightarrow> db \<Rightarrow> (error + result) \<times> db" where
  "createLead_sse p d =
     (case select_stage_by_slug (slug_or_lead (stage_slug p)) d of
        (Inl e, d1) \<Rightarrow> (Inl (StageNotFound ''Stage not found''), d1)
      | (Inr stage, d1) \<Rightarrow>
          (case count_leads_in_stage (ps_id stage) d1 of
             (count, d2) \<Rightarrow>
               (case insert_lead (new_lead p (ps_id stage) count) d2 of
                  (Inl msg, d3) \<Rightarrow> (Inl (BackendError msg), d3)
                | (Inr data, d3) \<Rightarrow> (Inr (Mutation None data), d3))))"

section \<open>search_price_catalog\<close>

text \<open>
  \<open>column.ilike.%q%\<close>: the column contains \<open>q\<close>, letters compared without case. A null
  column matches nothing. The pattern characters of the backend's filter language inside
  \<open>q\<close> are not modelled.
\<close>

definition lower_char :: "char \<Rightarrow> char" where
  "lower_char c =
     (case map_of (zip ''ABCDEFGHIJKLMNOPQRSTUVWXYZ'' ''abcdefghijklmnopqrstuvwxyz'') c of
        None \<Rightarrow> c
      | Some l \<Rightarrow> l)"

fun contains_at_start :: "string \<Rightarrow> string \<Rightarrow> bool" where
  "contains_at_start [] t = True"
| "contains_at_start (c # q) [] = False"
| "contains_at_start (c # q) (x # t) = (c = x \<and> contains_at_start q t)"

fun contains_str :: "string \<Rightarrow> string \<Rightarrow> bool" where
  "contains_str q [] = (q = [])"
| "contains_str q (x # t) = (contains_at_start q (x # t) \<or> contains_str q t)"

definition ilike :: "string option \<Rightarrow> string \<Rightarrow> bool" where
  "ilike column q =
     (case column of
        None \<Rightarrow> False
      | Some t \<Rightarrow> contains_str (map lower_char q) (map lower_char t))"

text \<open>
  \<open>from("price_catalog").select("*").eq("active", true).limit(n)\<close> with the optional
  \<open>.or(..)\<close> text match over the given columns and the optional \<open>.eq("category", c)\<close>.
\<close>

definition catalog_col :: "catalog_entry \<Rightarrow> string \<Rightarrow> string option" where
  "catalog_col e c =
     (if c = ''product_name'' then Some (pc_product_name e)
      else if c = ''description'' then pc_description e
      else pc_category e)"

definition select_catalog ::
  "int \<Rightarrow> (string list \<times> string) option \<Rightarrow> string option \<Rightarrow> db \<Rightarrow> (string + catalog_entry list) \<times> db" where
  "select_catalog n text_match cat d =
     (limit_rows n
        (filter (\<lambda>e. pc_active e \<and>
                     (case text_match of
                        None \<Rightarrow> True
                      | Some (cols, q) \<Rightarrow> list_ex (\<lambda>c. ilike (catalog_col e c) q) cols) \<and>
                     opt_eq (map_option Some cat) (pc_category e))
           (price_catalog d)),
      log_call (Select PriceCatalog) d)"

definition searchPriceCatalog_stdio :: "params \<Rightarrow> db \<Rightarrow> (error + result) \<times> db" where
  "searchPriceCatalog_stdio p d =
     (case select_catalog (or_default (limit p) 10)
             (if truthy_str (query p) then Some ([''product_name'', ''description'', ''category''], tpl (query p))
              else None)
             (when_truthy (category p)) d of
        (Inl msg, d1) \<Rightarrow> (Inl (BackendError (''Failed to search catalog: '' @ msg)), d1)
      | (Inr data, d1) \<Rightarrow> (Inr (Catalog data), d1))"

definition searchPriceCatalog_http :: "params \<Rightarrow> db \<Rightarrow> (error + result) \<times> db" where
  "searchPriceCatalog_http p d =
     (case select_catalog (or_default (limit p) 10)
             (if truthy_str (query p) then Some ([''product_name'', ''description''], tpl (query p))
              else None)
             (when_truthy (category p)) d of
        (Inl msg, d1) \<Rightarrow> (Inl (BackendError msg), d1)
      | (Inr data, d1) \<Rightarrow> (Inr (Catalog data), d1))"

definition searchPriceCatalog_sse :: "params \<Rightarrow> db \<Rightarrow> (error + result) \<times> db" where
  "searchPriceCatalog_sse p d =
     (case select_catalog (or_default (limit p) 10)
             (if truthy_str (query p) then Some ([''product_name'', ''description''], tpl (query p))
              else None)
             (when_truthy (category p)) d of
        (Inl msg, d1) \<Rightarrow> (Inl (BackendError msg), d1)
      | (Inr data, d1) \<Rightarrow> (Inr (Catalog data), d1))"

section \<open>get_lead_history\<close>

text \<open>
  \<open>from("lead_history").select("*, changed_by:profiles(full_name)").eq("lead_id", v)
  .order("created_at", { ascending: false })\<close>
\<close>

definition select_history :: "string \<Rightarrow> db \<Rightarrow> (string + history_view list) \<times> db" where
  "select_history v d =
     (Inr (map (\<lambda>h. \<lparr>hv_row = h, hv_changed_by = embed_profile [''full_name''] d (lh_changed_by h)\<rparr>)
             (newest_first lh_created_at (filter (\<lambda>h. lh_lead_id h = v) (lead_history d)))),
      log_call (Select LeadHistory) d)"

definition getLeadHistory_stdio :: "params \<Rightarrow> db \<Rightarrow> (error + result) \<times> db" where
  "getLeadHistory_stdio p d =
     (case select_history (tpl (lead_id p)) d of
        (Inl msg, d1) \<Rightarrow> (Inl (BackendError (''Failed to fetch history: '' @ msg)), d1)
      | (Inr data, d1) \<Rightarrow> (Inr (History data), d1))"

definition getLeadHistory_http :: "params \<Rightarrow> db \<Rightarrow> (error + result) \<times> db" where
  "getLeadHistory_http p d =
     (case select_history (tpl (lead_id p)) d of
        (Inl msg, d1) \<Rightarrow> (Inl (BackendError msg), d1)
      | (Inr data, d1) \<Rightarrow> (Inr (History data), d1))"

definition getLeadHistory_sse :: "params \<Rightarrow> db \<Rightarrow> (error + result) \<times> db" where
  "getLeadHistory_sse p d =
     (case select_history (tpl (lead_id p)) d of
        (Inl msg, d1) \<Rightarrow> (Inl (BackendError msg), d1)
      | (Inr data, d1) \<Rightarrow> (Inr (History data), d1))"

section \<open>get_pipeline_stats\<close>

text \<open>
  \<open>Number(v)\<close>. A string converts when it is a decimal integer literal with an optional
  sign between optional white space, and the empty string is zero; the other numeric
  literals of JavaScript (fractions, exponents, hexadecimal, Infinity) are outside the
  embedding, which answers \<open>NaN\<close> for every other string.
\<close>

definition is_space :: "char \<Rightarrow> bool" where
  "is_space c = (c \<in> set [CHR '' '', CHR 0x09, CHR 0x0A, CHR 0x0B, CHR 0x0C, CHR 0x0D])"

definition trim :: "string \<Rightarrow> string" where
  "trim s = rev (dropWhile is_space (rev (dropWhile is_space s)))"

definition digit_val :: "char \<Rightarrow> nat option" where
  "digit_val c = map_of (zip ''0123456789'' [0, 1, 2, 3, 4, 5, 6, 7, 8, 9]) c"

fun digits_val :: "nat \<Rightarrow> string \<Rightarrow> nat option" where
  "digits_val acc [] = Some acc"
| "digits_val acc (c # cs) =
     (case digit_val c of None \<Rightarrow> None | Some v \<Rightarrow> digits_val (10 * acc + v) cs)"

definition unsigned_literal :: "string \<Rightarrow> nat option" where
  "unsigned_literal s = (if s = [] then None else digits_val 0 s)"

definition string_to_number :: "string \<Rightarrow> number" where
  "string_to_number s =
     (case trim s of
        [] \<Rightarrow> Num 0
      | c # cs \<Rightarrow>
          (if c = CHR ''-'' then (case unsigned_literal cs of None \<Rightarrow> NaN | Some n \<Rightarrow> Num (- int n))
           else if c = CHR ''+'' then (case unsigned_literal cs of None \<Rightarrow> NaN | Some n \<Rightarrow> Num (int n))
           else (case unsigned_literal (c # cs) of None \<Rightarrow> NaN | Some n \<Rightarrow> Num (int n))))"

fun to_number :: "json \<Rightarrow> number" where
  "to_number JNull = Num 0"
| "to_number (JBool b) = Num (if b then 1 else 0)"
| "to_number (JNum n) = Num n"
| "to_number (JStr s) = string_to_number s"
| "to_number (JObj kvs) = NaN"
| "to_number (JArr []) = Num 0"
| "to_number (JArr [JNull]) = Num 0"
| "to_number (JArr [JBool b]) = NaN"
| "to_number (JArr [JNum n]) = Num n"
| "to_number (JArr [JStr s]) = string_to_number s"
| "to_number (JArr [JObj kvs]) = NaN"
| "to_number (JArr [JArr xs]) = to_number (JArr xs)"
| "to_number (JArr (x # y # zs)) = NaN"

fun add_number :: "number \<Rightarrow> number \<Rightarrow> number" where
  "add_number (Num a) (Num b) = Num (a + b)"
| "add_number a b = NaN"

text \<open>
  The names a plain object inherits: \<open>stats[slug]\<close> and \<open>TOOLS[name]\<close> find a truthy
  value under them although the object has no such property of its own.
\<close>

definition object_prototype_keys :: "string list" where
  "object_prototype_keys =
     [''constructor'', ''__proto__'', ''hasOwnProperty'', ''isPrototypeOf'',
      ''propertyIsEnumerable'', ''toLocaleString'', ''toString'', ''valueOf'',
      ''__defineGetter__'', ''__defineSetter__'', ''__lookupGetter__'', ''__lookupSetter__'']"

text \<open>\<open>from("leads").select("stage_id, custom_fields, stage:pipeline_stages(..)")\<close>\<close>

definition select_leads_with_stage :: "db \<Rightarrow> (lead \<times> pipeline_stage option) list \<times> db" where
  "select_leads_with_stage d =
     (map (\<lambda>l. (l, stage_of d l)) (leads d),
      log_call (Select Leads) d)"

text \<open>\<open>(lead.stage as any)?.slug || "unknown"\<close>\<close>

definition bucket :: "pipeline_stage option \<Rightarrow> string" where
  "bucket st = (case st of None \<Rightarrow> ''unknown'' | Some s \<Rightarrow> if ps_slug s \<noteq> [] then ps_slug s else ''unknown'')"

text \<open>\<open>(lead.custom_fields as any)?.valor_estimado\<close>\<close>

definition valor_estimado :: "lead \<Rightarrow> json option" where
  "valor_estimado l = (case l_custom_fields l of JObj kvs \<Rightarrow> map_of kvs ''valor_estimado'' | _ \<Rightarrow> None)"

text \<open>\<open>if (value) total_value += Number(value)\<close>\<close>

definition add_value :: "json option \<Rightarrow> number \<Rightarrow> number" where
  "add_value v acc =
     (case v of None \<Rightarrow> acc | Some x \<Rightarrow> if truthy x then add_number acc (to_number x) else acc)"

text \<open>
  The body of the loop. Under an inherited name \<open>stats[slug]\<close> is truthy, so no entry
  is created and the increments land on the inherited value: \<open>stats\<close> stays as it is.
\<close>

definition stats_step :: "(string \<times> stat) list \<Rightarrow> lead \<times> pipeline_stage option \<Rightarrow> (string \<times> stat) list" where
  "stats_step stats row =
     (case row of
        (l, st) \<Rightarrow>
          (if bucket st \<in> set object_prototype_keys then stats
           else
             AList.map_entry (bucket st)
               (\<lambda>e. e\<lparr>st_count := Suc (st_count e),
                       st_total_value := add_value (valor_estimado l) (st_total_value e)\<rparr>)
               (if map_of stats (bucket st) = None
                then stats @ [(bucket st, \<lparr>st_count = 0, st_total_value = Num 0, st_stage_name = map_option ps_name st\<rparr>)]
                else stats)))"

definition aggregate :: "(lead \<times> pipeline_stage option) list \<Rightarrow> (string \<times> stat) list" where
  "aggregate rows = foldl stats_step [] rows"

definition getPipelineStats_stdio :: "db \<Rightarrow> (error + result) \<times> db" where
  "getPipelineStats_stdio d =
     (case select_leads_with_stage d of (data, d1) \<Rightarrow> (Inr (Stats (aggregate data)), d1))"

definition getPipelineStats_http :: "db \<Rightarrow> (error + result) \<times> db" where
  "getPipelineStats_http d =
     (case select_leads_with_stage d of (data, d1) \<Rightarrow> (Inr (Stats (aggregate data)), d1))"

definition getPipelineStats_sse :: "db \<Rightarrow> (error + result) \<times> db" where
  "getPipelineStats_sse d =
     (case select_leads_with_stage d of (data, d1) \<Rightarrow> (Inr (Stats (aggregate data)), d1))"

section \<open>The declared input shapes and their validation\<close>

text \<open>
  index.ts and the event-stream server declare one schema per tool and parse the
  arguments with it before the handler runs. A schema is the list of its fields, each
  with its type and whether it is required, optional or has a default. The format
  checks of the schema library (\<open>.uuid()\<close>, \<open>.email()\<close>) are parameters.
\<close>

record checks =
  uuid_ok :: "string \<Rightarrow> bool"
  email_ok :: "string \<Rightarrow> bool"

datatype kind = KString | KUuid | KEmail | KNumber | KRecord

datatype presence = Required | Optional | Default json

type_synonym schema = "(string \<times> kind \<times> presence) list"

definition GetLeadsSchema :: schema where
  "GetLeadsSchema =
     [(''stage_slug'', KString, Optional),
      (''vendedor_id'', KUuid, Optional),
      (''limit'', KNumber, Default (JNum 50))]"

definition UpdateLeadStageSchema :: schema where
  "UpdateLeadStageSchema =
     [(''lead_id'', KUuid, Required),
      (''new_stage_slug'', KString, Required)]"

definition UpdateLeadCustomFieldsSchema :: schema where
  "UpdateLeadCustomFieldsSchema =
     [(''lead_id'', KUuid, Required),
      (''custom_fields'', KRecord, Required)]"

definition CreateLeadSchema :: schema where
  "CreateLeadSchema =
     [(''name'', KString, Required),
      (''phone'', KString, Optional),
      (''email'', KEmail, Optional),
      (''stage_slug'', KString, Default (JStr ''lead'')),
      (''vendedor_id'', KUuid, Required),
      (''custom_fields'', KRecord, Optional),
      (''notes'', KString, Optional)]"

definition SearchPriceCatalogSchema :: schema where
  "SearchPriceCatalogSchema =
     [(''query'', KString, Required),
      (''category'', KString, Optional),
      (''limit'', KNumber, Default (JNum 10))]"

definition GetLeadHistorySchema :: schema where
  "GetLeadHistorySchema = [(''lead_id'', KUuid, Required)]"

text \<open>The issues of one value against the type of its field, as (field, constraint).\<close>

definition value_issues :: "checks \<Rightarrow> string \<Rightarrow> kind \<Rightarrow> json \<Rightarrow> (string \<times> string) list" where
  "value_issues c f k v =
     (case k of
        KString \<Rightarrow> (case v of JStr s \<Rightarrow> [] | _ \<Rightarrow> [(f, ''invalid_type'')])
      | KUuid \<Rightarrow> (case v of JStr s \<Rightarrow> if uuid_ok c s then [] else [(f, ''uuid'')] | _ \<Rightarrow> [(f, ''invalid_type'')])
      | KEmail \<Rightarrow> (case v of JStr s \<Rightarrow> if email_ok c s then [] else [(f, ''email'')] | _ \<Rightarrow> [(f, ''invalid_type'')])
      | KNumber \<Rightarrow> (case v of JNum n \<Rightarrow> [] | _ \<Rightarrow> [(f, ''invalid_type'')])
      | KRecord \<Rightarrow> (case v of JObj kvs \<Rightarrow> [] | _ \<Rightarrow> [(f, ''invalid_type'')]))"

definition field_issues :: "checks \<Rightarrow> (string \<times> json) list \<Rightarrow> string \<times> kind \<times> presence \<Rightarrow> (string \<times> string) list" where
  "field_issues c kvs fld =
     (case fld of
        (f, k, pr) \<Rightarrow>
          (case map_of kvs f of
             None \<Rightarrow> (if pr = Required then [(f, ''required'')] else [])
           | Some v \<Rightarrow> value_issues c f k v))"

text \<open>The parsed object: the declared fields that are present, and the defaults of the absent ones.\<close>

definition field_output :: "(string \<times> json) list \<Rightarrow> string \<times> kind \<times> presence \<Rightarrow> (string \<times> json) list" where
  "field_output kvs fld =
     (case fld of
        (f, k, pr) \<Rightarrow>
          (case map_of kvs f of
             Some v \<Rightarrow> [(f, v)]
           | None \<Rightarrow> (case pr of Default v \<Rightarrow> [(f, v)] | _ \<Rightarrow> [])))"

definition parse :: "checks \<Rightarrow> schema \<Rightarrow> json option \<Rightarrow> error + (string \<times> json) list" where
  "parse c shape args =
     (case args of
        None \<Rightarrow> Inl (ValidationError [([], ''required'')])
      | Some (JObj kvs) \<Rightarrow>
          (if concat (map (field_issues c kvs) shape) = []
           then Inr (concat (map (field_output kvs) shape))
           else Inl (ValidationError (concat (map (field_issues c kvs) shape))))
      | Some v \<Rightarrow> Inl (ValidationError [([], ''invalid_type'')]))"

text \<open>Reading the fields of an argument object at their declared types.\<close>

definition get_str :: "(string \<times> json) list \<Rightarrow> string \<Rightarrow> string option" where
  "get_str kvs f = (case map_of kvs f of Some (JStr s) \<Rightarrow> Some s | _ \<Rightarrow> None)"

definition get_num :: "(string \<times> json) list \<Rightarrow> string \<Rightarrow> int option" where
  "get_num kvs f = (case map_of kvs f of Some (JNum n) \<Rightarrow> Some n | _ \<Rightarrow> None)"

definition get_obj :: "(string \<times> json) list \<Rightarrow> string \<Rightarrow> (string \<times> json) list option" where
  "get_obj kvs f = (case map_of kvs f of Some (JObj ob) \<Rightarrow> Some ob | _ \<Rightarrow> None)"

definition as_params :: "(string \<times> json) list \<Rightarrow> params" where
  "as_params kvs =
     \<lparr>stage_slug = get_str kvs ''stage_slug'', vendedor_id = get_str kvs ''vendedor_id'',
      limit = get_num kvs ''limit'', lead_id = get_str kvs ''lead_id'',
      new_stage_slug = get_str kvs ''new_stage_slug'', custom_fields = get_obj kvs ''custom_fields'',
      name = get_str kvs ''name'', phone = get_str kvs ''phone'', email = get_str kvs ''email'',
      notes' = get_str kvs ''notes'', query = get_str kvs ''query'', category = get_str kvs ''category''\<rparr>"

section \<open>Tool execution in the three transports\<close>

text \<open>\<open>handler(Schema.parse(args))\<close>: a failed parse throws before the handler is called.\<close>

definition parsed ::
  "checks \<Rightarrow> schema \<Rightarrow> json option \<Rightarrow> (params \<Rightarrow> db \<Rightarrow> (error + result) \<times> db) \<Rightarrow> db \<Rightarrow> (error + result) \<times> db" where
  "parsed c shape args handler d =
     (case parse c shape args of
        Inl e \<Rightarrow> (Inl e, d)
      | Inr kvs \<Rightarrow> handler (as_params kvs) d)"

text \<open>
  index.ts: the \<open>switch\<close> of the CallTool handler inside its \<open>try\<close>; \<open>Inl\<close> is the
  response with \<open>isError\<close>.
\<close>

definition call_tool_stdio :: "checks \<Rightarrow> string \<Rightarrow> json option \<Rightarrow> db \<Rightarrow> (error + result) \<times> db" where
  "call_tool_stdio c tool args d =
     (if tool = ''get_leads'' then parsed c GetLeadsSchema args getLeads_stdio d
      else if tool = ''update_lead_stage'' then parsed c UpdateLeadStageSchema args updateLeadStage_stdio d
      else if tool = ''update_lead_custom_fields'' then
        parsed c UpdateLeadCustomFieldsSchema args updateLeadCustomFields_stdio d
      else if tool = ''create_lead'' then parsed c CreateLeadSchema args createLead_stdio d
      else if tool = ''search_price_catalog'' then parsed c SearchPriceCatalogSchema args searchPriceCatalog_stdio d
      else if tool = ''get_lead_history'' then parsed c GetLeadHistorySchema args getLeadHistory_stdio d
      else if tool = ''get_pipeline_stats'' then getPipelineStats_stdio d
      else (Inl (UnknownTool (''Unknown tool: '' @ tool)), d))"

text \<open>The event-stream server: the same \<open>switch\<close> over its own handlers.\<close>

definition call_tool_sse :: "checks \<Rightarrow> string \<Rightarrow> json option \<Rightarrow> db \<Rightarrow> (error + result) \<times> db" where
  "call_tool_sse c tool args d =
     (if tool = ''get_leads'' then parsed c GetLeadsSchema args getLeads_sse d
      else if tool = ''update_lead_stage'' then parsed c UpdateLeadStageSchema args updateLeadStage_sse d
      else if tool = ''update_lead_custom_fields'' then
        parsed c UpdateLeadCustomFieldsSchema args updateLeadCustomFields_sse d
      else if tool = ''create_lead'' then parsed c CreateLeadSchema args createLead_sse d
      else if tool = ''search_price_catalog'' then parsed c SearchPriceCatalogSchema args searchPriceCatalog_sse d
      else if tool = ''get_lead_history'' then parsed c GetLeadHistorySchema args getLeadHistory_sse d
      else if tool = ''get_pipeline_stats'' then getPipelineStats_sse d
      else (Inl (UnknownTool (''Unknown tool: '' @ tool)), d))"

text \<open>
  server.ts: the table \<open>TOOLS\<close> and \<open>POST /mcp\<close>. The handler gets \<open>args || {}\<close> as it
  came, with no parse; the embedding reads its fields at the types the handler declares
  (a field of another type reads as undefined, so the embedding stands for the argument
  objects whose present fields have the declared types). The response is the status
  code with the body.
\<close>

definition TOOLS :: "(string \<times> (params \<Rightarrow> db \<Rightarrow> (error + result) \<times> db) \<times> string) list" where
  "TOOLS =
     [(''get_leads'', getLeads_http, ''Get leads from pipeline''),
      (''update_lead_stage'', updateLeadStage_http, ''Move lead to stage''),
      (''update_lead_custom_fields'', updateLeadCustomFields_http, ''Update custom fields''),
      (''create_lead'', createLead_http, ''Create new lead''),
      (''search_price_catalog'', searchPriceCatalog_http, ''Search prices''),
      (''get_lead_history'', getLeadHistory_http, ''Get lead history''),
      (''get_pipeline_stats'', (\<lambda>p. getPipelineStats_http), ''Get pipeline stats'')]"

definition args_or_empty :: "json option \<Rightarrow> params" where
  "args_or_empty args = as_params (case args of Some (JObj kvs) \<Rightarrow> kvs | _ \<Rightarrow> [])"

datatype http_payload =
    ToolList "(string \<times> string) list"
  | CallResult result
  | DirectResult result

type_synonym http_response = "nat \<times> (error + http_payload)"

text \<open>
  \<open>const tool = TOOLS[name]; if (!tool) return 400; result = await tool.handler(args || {})\<close>.
  Under an inherited name \<open>tool\<close> is truthy and has no \<open>handler\<close>: the call throws a
  TypeError, which the \<open>catch\<close> turns into status 500.
\<close>

definition invoke_http ::
  "(result \<Rightarrow> http_payload) \<Rightarrow> string option \<Rightarrow> json option \<Rightarrow> db \<Rightarrow> http_response \<times> db" where
  "invoke_http wrap tool args d =
     (case map_of TOOLS (tpl tool) of
        Some (handler, description) \<Rightarrow>
          (case handler (args_or_empty args) d of
             (Inl e, d') \<Rightarrow> ((500, Inl e), d')
           | (Inr r, d') \<Rightarrow> ((200, Inr (wrap r)), d'))
      | None \<Rightarrow>
          (if tpl tool \<in> set object_prototype_keys
           then ((500, Inl (TypeError ''tool.handler is not a function'')), d)
           else ((400, Inl (UnknownTool (''Tool not found: '' @ tpl tool))), d)))"

record call_params =
  cp_name :: "string option"
  cp_arguments :: "json option"

record request =
  rq_method :: "string option"
  rq_params :: "call_params option"
  rq_tool :: "string option"
  rq_arguments :: "json option"

definition mcp_post :: "request \<Rightarrow> db \<Rightarrow> http_response \<times> db" where
  "mcp_post rq d =
     (if rq_method rq = Some ''tools/list'' then
        ((200, Inr (ToolList (map (\<lambda>(n, h, description). (n, description)) TOOLS))), d)
      else if rq_method rq = Some ''tools/call'' then
        (case rq_params rq of
           None \<Rightarrow> ((500, Inl (TypeError ''Cannot destructure property 'name' of 'params' as it is undefined.'')), d)
         | Some cp \<Rightarrow> invoke_http CallResult (cp_name cp) (cp_arguments cp) d)
      else if truthy_str (rq_tool rq) then invoke_http DirectResult (rq_tool rq) (rq_arguments rq) d
      else ((400, Inl (InvalidRequest ''Invalid request'')), d))"

text \<open>The seven registered tools, in the order index.ts lists them.\<close>

definition tool_names :: "string list" where
  "tool_names =
     [''get_leads'', ''update_lead_stage'', ''update_lead_custom_fields'', ''create_lead'',
      ''search_price_catalog'', ''get_lead_history'', ''get_pipeline_stats'']"

section \<open>A concrete backend for the examples\<close>

text \<open>
  The fixture of the specification: two leads in stage "lead" with \<open>valor_estimado\<close>
  100 and "200", one lead in stage "fechado" with none; beside them one seller, one
  catalogue entry and one history entry.
\<close>

definition uuid :: "nat \<Rightarrow> string" where
  "uuid n = ''00000000-0000-4000-8000-00000000000'' @ string_of_nat n"

definition is_hex :: "char \<Rightarrow> bool" where
  "is_hex c = (c \<in> set ''0123456789abcdefABCDEF'')"

text \<open>A format check for the examples: 36 characters, hyphens in their places, hexadecimal digits elsewhere.\<close>

definition uuid_shape :: "string \<Rightarrow> bool" where
  "uuid_shape s =
     (length s = 36 \<and>
      list_all (\<lambda>i. if i \<in> set [8, 13, 18, 23] then s ! i = CHR ''-'' else is_hex (s ! i)) [0..<36])"

definition example_checks :: checks where
  "example_checks = \<lparr>uuid_ok = uuid_shape, email_ok = (\<lambda>s. CHR ''@'' \<in> set s)\<rparr>"

definition stage_lead :: pipeline_stage where
  "stage_lead = \<lparr>ps_id = ''s-lead'', ps_slug = ''lead'', ps_name = ''Lead'', ps_color = ''#3b82f6'', ps_position = 0\<rparr>"

definition stage_fechado :: pipeline_stage where
  "stage_fechado =
     \<lparr>ps_id = ''s-fechado'', ps_slug = ''fechado'', ps_name = ''Fechado'', ps_color = ''#22c55e'', ps_position = 3\<rparr>"

definition lead1 :: lead where
  "lead1 =
     \<lparr>l_id = uuid 1, l_name = Some ''Ana'', l_phone = None, l_email = None,
      l_stage_id = Some ''s-lead'', l_vendedor_id = Some (uuid 9),
      l_custom_fields = JObj [(''valor_estimado'', JNum 100), (''tipo_tinta'', JStr ''acrilica'')],
      l_notes = None, l_position = 0, l_created_at = 1\<rparr>"

definition lead2 :: lead where
  "lead2 =
     \<lparr>l_id = uuid 2, l_name = Some ''Bruno'', l_phone = None, l_email = None,
      l_stage_id = Some ''s-lead'', l_vendedor_id = Some (uuid 9),
      l_custom_fields = JObj [(''valor_estimado'', JStr ''200'')],
      l_notes = None, l_position = 1, l_created_at = 2\<rparr>"

definition lead3 :: lead where
  "lead3 =
     \<lparr>l_id = uuid 3, l_name = Some ''Carla'', l_phone = None, l_email = None,
      l_stage_id = Some ''s-fechado'', l_vendedor_id = Some (uuid 9),
      l_custom_fields = JObj [],
      l_notes = None, l_position = 0, l_created_at = 3\<rparr>"

definition fixture :: db where
  "fixture =
     \<lparr>pipeline_stages = [stage_lead, stage_fechado],
      leads = [lead1, lead2, lead3],
      profiles = [\<lparr>pr_id = uuid 9, pr_full_name = ''Vera'', pr_role = ''vendedor''\<rparr>],
      price_catalog =
        [\<lparr>pc_id = ''p1'', pc_product_name = ''Suvinil Fosco'', pc_description = Some ''Acabamento fosco'',
          pc_category = Some ''tinta'', pc_active = True, pc_price = 120\<rparr>],
      lead_history =
        [\<lparr>lh_id = ''h1'', lh_lead_id = uuid 1, lh_description = ''created'', lh_changed_by = Some (uuid 9),
          lh_created_at = 1\<rparr>],
      calls = [],
      gen_id = (\<lambda>n. uuid n),
      tick = 4\<rparr>"

section \<open>Notions the statements use\<close>

text \<open>What the backend stores as \<open>custom_fields\<close> under a lead id.\<close>

definition stored_custom_fields :: "string \<Rightarrow> db \<Rightarrow> json list" where
  "stored_custom_fields i d = map l_custom_fields (filter (\<lambda>l. l_id l = i) (leads d))"

text \<open>The body of a \<open>tools/call\<close> request to \<open>POST /mcp\<close>.\<close>

definition tools_call :: "string \<Rightarrow> json option \<Rightarrow> request" where
  "tools_call tool args =
     \<lparr>rq_method = Some ''tools/call'',
      rq_params = Some \<lparr>cp_name = Some tool, cp_arguments = args\<rparr>,
      rq_tool = None, rq_arguments = None\<rparr>"

text \<open>
  Comparing the transports. \<open>core\<close> is a result without what the handlers of the
  transports decorate differently: the message of a mutation and the resources embedded
  in the lead it returns. Two outcomes agree when both are failures or both are results
  with the same core. \<open>tables\<close> is the backend without the log of requests.
\<close>

fun core :: "result \<Rightarrow> result" where
  "core (Mutation m v) = Mutation None (v\<lparr>lv_joined := []\<rparr>)"
| "core r = r"

definition same_outcome :: "error + result \<Rightarrow> error + result \<Rightarrow> bool" where
  "same_outcome x y =
     (case x of
        Inl e \<Rightarrow> isl y
      | Inr r \<Rightarrow> (case y of Inl e \<Rightarrow> False | Inr r' \<Rightarrow> core r = core r'))"


definition tables :: "db \<Rightarrow> db" where
  "tables d = d\<lparr>calls := []\<rparr>"







section \<open>Facts about the backend requests\<close>

declare string_of_nat.simps [simp del]









section \<open>get_leads: an unresolved stage slug, a zero limit\<close>







lemma leads_log_call: "leads (log_call c d) = leads d"
  by (simp add: log_call_def)

lemma select_stage_unknown:
  assumes "filter (\<lambda>s. ps_slug s = slug) (pipeline_stages d) = []"
  shows "select_stage_by_slug slug d = (Inl PGRST116, log_call (Select PipelineStages) d)"
  using assms by (simp add: select_stage_by_slug_def single_def)

lemma select_lead_custom_fields_one:
  assumes "filter (\<lambda>l. l_id l = v) (leads d) = [l]"
  shows "select_lead_custom_fields v d = (Inr (l_custom_fields l), log_call (Select Leads) d)"
  using assms by (simp add: select_lead_custom_fields_def single_def)

lemma select_lead_custom_fields_none:
  assumes "filter (\<lambda>l. l_id l = v) (leads d) = []"
  shows "select_lead_custom_fields v d = (Inl PGRST116, log_call (Select Leads) d)"
  using assms by (simp add: select_lead_custom_fields_def single_def)

lemma update_lead_by_id_one:
  assumes "filter (\<lambda>l. l_id l = v) (leads d) = [l]"
  shows "update_lead_by_id v f view d =
           (Inr (view (log_call (Update Leads) (d\<lparr>leads := map (\<lambda>r. if l_id r = v then f r else r) (leads d)\<rparr>)) (f l)),
            log_call (Update Leads) (d\<lparr>leads := map (\<lambda>r. if l_id r = v then f r else r) (leads d)\<rparr>))"
  using assms by (simp add: update_lead_by_id_def Let_def)

lemma update_lead_by_id_none:
  assumes "filter (\<lambda>l. l_id l = v) (leads d) = []"
  shows "update_lead_by_id v f view d = (Inl PGRST116, log_call (Update Leads) d)"
  using assms by (simp add: update_lead_by_id_def)

lemma filter_updated:
  assumes "\<And>r. l_id (f r) = l_id r"
  shows "filter (\<lambda>l. l_id l = v) (map (\<lambda>r. if l_id r = v then f r else r) rows) =
         map f (filter (\<lambda>l. l_id l = v) rows)"
  using assms by (induction rows) auto

section \<open>update_lead_custom_fields: the merge, an unknown lead\<close>

lemma map_of_assign:
  "distinct (map fst src) \<Longrightarrow>
   map_of (assign target src) k = (case map_of src k of None \<Rightarrow> map_of target k | Some v \<Rightarrow> Some v)"
proof (induction src arbitrary: target)
  case Nil
  then show ?case by (simp add: assign_def)
next
  case (Cons x xs)
  obtain a b where x: "x = (a, b)" by (cases x)
  from Cons.prems x have a: "map_of xs a = None" and dist: "distinct (map fst xs)"
    by (auto simp: map_of_eq_None_iff)
  have step: "assign target (x # xs) = assign (AList.update a b target) xs"
    by (simp add: assign_def x)
  show ?case
    unfolding step Cons.IH [OF dist]
    using a by (simp add: x update_conv' split: option.splits)
qed

lemma map_of_spread_merge:
  assumes "distinct (map fst old)" and "distinct (map fst U)"
  shows "map_of (spread_merge (Some (JObj old)) (Some U)) k =
           (case map_of U k of None \<Rightarrow> map_of old k | Some v \<Rightarrow> Some v)"
proof -
  have "map_of (assign [] old) k = map_of old k"
    using assms(1) by (simp add: map_of_assign split: option.splits)
  then show ?thesis
    using assms(2) by (simp add: spread_merge_def map_of_assign split: option.splits)
qed

text \<open>
  C1. Let a lead be stored once under the id of the call, with an object \<open>old\<close> as its
  custom fields, and let the call carry the update object \<open>U\<close> (objects have distinct
  keys). Then each of the three handlers succeeds, and afterwards the backend stores
  under that id an object \<open>m\<close> that is the shallow merge: a key absent from \<open>U\<close> has
  the value it had in \<open>old\<close> (or is absent as it was), a key of \<open>U\<close> has the value
  \<open>U\<close> gives it.
\<close>

theorem update_custom_fields_merges:
  assumes "filter (\<lambda>l. l_id l = i) (leads d) = [l]"
    and "l_custom_fields l = JObj old"
    and "distinct (map fst old)" and "distinct (map fst U)"
    and "lead_id p = Some i" and "custom_fields p = Some U"
    and "h = updateLeadCustomFields_stdio \<or> h = updateLeadCustomFields_http \<or> h = updateLeadCustomFields_sse"
  shows "\<not> isl (fst (h p d)) \<and>
         (\<exists>m. stored_custom_fields i (snd (h p d)) = [JObj m] \<and>
              (\<forall>k. map_of m k = (case map_of U k of None \<Rightarrow> map_of old k | Some v \<Rightarrow> Some v)))"
proof -
  let ?m = "spread_merge (Some (JObj old)) (Some U)"
  let ?f = "\<lambda>l. l\<lparr>l_custom_fields := JObj ?m\<rparr>"
  let ?d2 = "log_call (Update Leads) ((log_call (Select Leads) d)\<lparr>leads := map (\<lambda>r. if l_id r = i then ?f r else r) (leads d)\<rparr>)"
  have one: "filter (\<lambda>l. l_id l = i) (leads (log_call (Select Leads) d)) = [l]"
    using assms(1) by (simp add: leads_log_call)
  have stored: "stored_custom_fields i ?d2 = [JObj ?m]"
    using assms(1) by (simp add: stored_custom_fields_def leads_log_call filter_updated)
  have m: "\<forall>k. map_of ?m k = (case map_of U k of None \<Rightarrow> map_of old k | Some v \<Rightarrow> Some v)"
    using map_of_spread_merge [OF assms(3,4)] by simp
  have a: "updateLeadCustomFields_stdio p d = (Inr (Mutation (Some ''Custom fields updated'') (view_plain ?d2 (?f l))), ?d2)"
    by (simp add: updateLeadCustomFields_stdio_def tpl_def assms(5,6)
        select_lead_custom_fields_one [OF assms(1)] update_lead_by_id_one [OF one] assms(2) leads_log_call)
  have b: "updateLeadCustomFields_http p d = (Inr (Mutation None (view_plain ?d2 (?f l))), ?d2)"
    by (simp add: updateLeadCustomFields_http_def tpl_def assms(5,6)
        select_lead_custom_fields_one [OF assms(1)] update_lead_by_id_one [OF one] assms(2) leads_log_call)
  have c: "updateLeadCustomFields_sse p d = updateLeadCustomFields_http p d"
    by (simp add: updateLeadCustomFields_sse_def updateLeadCustomFields_http_def)
  from assms(7) show ?thesis
    using a b c stored m by auto
qed

theorem update_custom_fields_merges_witness:
  "filter (\<lambda>l. l_id l = uuid 1) (leads fixture) = [lead1] \<and>
   \<not> isl (fst (updateLeadCustomFields_http
                 (no_params\<lparr>lead_id := Some (uuid 1),
                    custom_fields := Some [(''valor_estimado'', JNum 250), (''cor'', JStr ''azul'')]\<rparr>) fixture)) \<and>
   stored_custom_fields (uuid 1)
     (snd (updateLeadCustomFields_http
             (no_params\<lparr>lead_id := Some (uuid 1),
                custom_fields := Some [(''valor_estimado'', JNum 250), (''cor'', JStr ''azul'')]\<rparr>) fixture)) =
     [JObj [(''valor_estimado'', JNum 250), (''tipo_tinta'', JStr ''acrilica''), (''cor'', JStr ''azul'')]]"
proof -
  let ?U = "[(''valor_estimado'', JNum 250), (''cor'', JStr ''azul'')]"
  let ?p = "no_params\<lparr>lead_id := Some (uuid 1), custom_fields := Some ?U\<rparr>"
  have a: "filter (\<lambda>l. l_id l = uuid 1) (leads fixture) = [lead1]"
    by code_simp
  have b: "l_custom_fields lead1 = JObj [(''valor_estimado'', JNum 100), (''tipo_tinta'', JStr ''acrilica'')]"
    by (simp add: lead1_def)
  have c: "distinct (map fst [(''valor_estimado'', JNum 100), (''tipo_tinta'', JStr ''acrilica'')])"
    by simp
  have d: "distinct (map fst ?U)"
    by simp
  have e: "lead_id ?p = Some (uuid 1)" and f: "custom_fields ?p = Some ?U"
    by simp_all
  have "\<not> isl (fst (updateLeadCustomFields_http ?p fixture))"
    using update_custom_fields_merges [OF a b c d e f, of updateLeadCustomFields_http] by blast
  moreover have "stored_custom_fields (uuid 1) (snd (updateLeadCustomFields_http ?p fixture)) =
     [JObj [(''valor_estimado'', JNum 250), (''tipo_tinta'', JStr ''acrilica''), (''cor'', JStr ''azul'')]]"
    by code_simp
  ultimately show ?thesis
    using a by blast
qed

lemma update_custom_fields_unknown_lead_stdio:
  assumes "filter (\<lambda>l. l_id l = tpl (lead_id p)) (leads d) = []"
  shows "updateLeadCustomFields_stdio p d =
           (Inl (LeadNotFound (''Lead not found: '' @ tpl (lead_id p))), log_call (Select Leads) d)"
  by (simp add: updateLeadCustomFields_stdio_def select_lead_custom_fields_none [OF assms])

lemma update_custom_fields_unknown_lead_http:
  assumes "filter (\<lambda>l. l_id l = tpl (lead_id p)) (leads d) = []"
  shows "updateLeadCustomFields_http p d =
           (Inl (BackendError PGRST116), log_call (Update Leads) (log_call (Select Leads) d))"
    and "updateLeadCustomFields_sse p d =
           (Inl (BackendError PGRST116), log_call (Update Leads) (log_call (Select Leads) d))"
  using assms
  by (simp_all add: updateLeadCustomFields_http_def updateLeadCustomFields_sse_def
      select_lead_custom_fields_none [OF assms] update_lead_by_id_none leads_log_call)

text \<open>
  C4, at a lead id the backend does not hold. The handler of index.ts fails with
  "Lead not found" after its read and issues no write. The handlers of server.ts and of
  the event-stream server do not look at the outcome of the read: they issue the update
  (which matches no row) and fail with the message of the backend for it.
\<close>

theorem update_custom_fields_unknown_lead:
  "filter (\<lambda>l. l_id l = uuid 7) (leads fixture) = [] \<and>
   updateLeadCustomFields_stdio (no_params\<lparr>lead_id := Some (uuid 7), custom_fields := Some [(''cor'', JStr ''azul'')]\<rparr>) fixture =
     (Inl (LeadNotFound (''Lead not found: '' @ uuid 7)), log_call (Select Leads) fixture) \<and>
   updateLeadCustomFields_http (no_params\<lparr>lead_id := Some (uuid 7), custom_fields := Some [(''cor'', JStr ''azul'')]\<rparr>) fixture =
     (Inl (BackendError PGRST116), log_call (Update Leads) (log_call (Select Leads) fixture)) \<and>
   updateLeadCustomFields_sse (no_params\<lparr>lead_id := Some (uuid 7), custom_fields := Some [(''cor'', JStr ''azul'')]\<rparr>) fixture =
     (Inl (BackendError PGRST116), log_call (Update Leads) (log_call (Select Leads) fixture)) \<and>
   calls (log_call (Update Leads) (log_call (Select Leads) fixture)) = [Select Leads, Update Leads]"
proof -
  let ?p = "no_params\<lparr>lead_id := Some (uuid 7), custom_fields := Some [(''cor'', JStr ''azul'')]\<rparr>"
  have a: "filter (\<lambda>l. l_id l = uuid 7) (leads fixture) = []"
    by code_simp
  then have b: "filter (\<lambda>l. l_id l = tpl (lead_id ?p)) (leads fixture) = []"
    by (simp add: tpl_def)
  have c: "calls (log_call (Update Leads) (log_call (Select Leads) fixture)) = [Select Leads, Update Leads]"
    by (simp add: log_call_def fixture_def)
  show ?thesis
    using a c update_custom_fields_unknown_lead_stdio [OF b] update_custom_fields_unknown_lead_http [OF b]
    by (simp add: tpl_def)
qed

section \<open>An unknown stage slug in update_lead_stage and create_lead\<close>

text \<open>
  C3, as amended. When a stage slug matches no stage, update_lead_stage fails with
  "Stage not found" in each transport, and so does create_lead for a slug that is not
  empty; the backend is left as it was but for the one read of the stages that the
  handler issued (no lead is updated and none inserted). An empty slug is not looked up
  by create_lead: it is replaced by the default "lead" first.
\<close>

theorem unknown_stage_slug_fails:
  assumes "filter (\<lambda>s. ps_slug s = slug) (pipeline_stages d) = []"
    and "new_stage_slug p = Some slug"
    and "stage_slug q = Some slug"
  shows "updateLeadStage_stdio p d =
           (Inl (StageNotFound (''Stage not found: '' @ slug)), log_call (Select PipelineStages) d) \<and>
         updateLeadStage_http p d =
           (Inl (StageNotFound (''Stage not found: '' @ slug)), log_call (Select PipelineStages) d) \<and>
         updateLeadStage_sse p d =
           (Inl (StageNotFound (''Stage not found: '' @ slug)), log_call (Select PipelineStages) d) \<and>
         (slug \<noteq> [] \<longrightarrow>
            createLead_stdio q d =
              (Inl (StageNotFound (''Stage not found: '' @ slug)), log_call (Select PipelineStages) d) \<and>
            createLead_http q d = (Inl (StageNotFound ''Stage not found''), log_call (Select PipelineStages) d) \<and>
            createLead_sse q d = (Inl (StageNotFound ''Stage not found''), log_call (Select PipelineStages) d))"
  using select_stage_unknown [OF assms(1)] assms(2,3)
  by (simp add: updateLeadStage_stdio_def updateLeadStage_http_def updateLeadStage_sse_def
      createLead_stdio_def createLead_http_def createLead_sse_def slug_or_lead_def truthy_str_def tpl_def)

theorem unknown_stage_slug_fails_witness:
  "filter (\<lambda>s. ps_slug s = ''perdido'') (pipeline_stages fixture) = [] \<and>
   updateLeadStage_http (no_params\<lparr>lead_id := Some (uuid 1), new_stage_slug := Some ''perdido''\<rparr>) fixture =
     (Inl (StageNotFound ''Stage not found: perdido''), log_call (Select PipelineStages) fixture) \<and>
   createLead_http (no_params\<lparr>name := Some ''Dora'', stage_slug := Some ''perdido''\<rparr>) fixture =
     (Inl (StageNotFound ''Stage not found''), log_call (Select PipelineStages) fixture)"
proof -
  have a: "filter (\<lambda>s. ps_slug s = ''perdido'') (pipeline_stages fixture) = []"
    by code_simp
  have b: "new_stage_slug (no_params\<lparr>lead_id := Some (uuid 1), new_stage_slug := Some ''perdido''\<rparr>) = Some ''perdido''"
    by simp
  have c: "stage_slug (no_params\<lparr>name := Some ''Dora'', stage_slug := Some ''perdido''\<rparr>) = Some ''perdido''"
    by simp
  show ?thesis
    using a unknown_stage_slug_fails [OF a b c] by simp
qed

text \<open>
  The claim as stated fails at the empty slug: it matches no stage of the fixture, yet
  create_lead, called through index.ts with arguments its schema accepts, succeeds and
  inserts the lead (into the default stage).
\<close>

theorem create_lead_empty_slug_counterexample:
  "filter (\<lambda>s. ps_slug s = []) (pipeline_stages fixture) = [] \<and>
   \<not> isl (fst (call_tool_stdio example_checks ''create_lead''
                 (Some (JObj [(''name'', JStr ''Dora''), (''vendedor_id'', JStr (uuid 9)), (''stage_slug'', JStr [])]))
                 fixture)) \<and>
   map l_name (leads (snd (call_tool_stdio example_checks ''create_lead''
                 (Some (JObj [(''name'', JStr ''Dora''), (''vendedor_id'', JStr (uuid 9)), (''stage_slug'', JStr [])]))
                 fixture))) = [Some ''Ana'', Some ''Bruno'', Some ''Carla'', Some ''Dora'']"
  by code_simp

section \<open>create_lead: the position of the new lead\<close>

lemma single_cases: "(\<exists>r. rows = [r] \<and> single rows = Inr r) \<or> single rows = Inl PGRST116"
  by (auto simp: single_def split: list.splits)

lemma createLead_closed:
  assumes "filter (\<lambda>s. ps_slug s = slug_or_lead (stage_slug p)) (pipeline_stages d) = [stage]"
  defines "row \<equiv> (new_lead p (ps_id stage) (length (filter (\<lambda>l. l_stage_id l = Some (ps_id stage)) (leads d))))
                    \<lparr>l_id := gen_id d (tick d), l_created_at := tick d\<rparr>"
  defines "d3 \<equiv> log_call (Insert Leads)
                  ((log_call (Count Leads) (log_call (Select PipelineStages) d))
                     \<lparr>leads := leads d @ [row], tick := Suc (tick d)\<rparr>)"
  shows "createLead_stdio p d =
           (Inr (Mutation (Some (''Lead '' @ [CHR 0x22] @ tpl (name p) @ [CHR 0x22] @ '' created successfully''))
                   (view_plain d3 row)), d3)"
    and "createLead_http p d = (Inr (Mutation None (view_plain d3 row)), d3)"
    and "createLead_sse p d = (Inr (Mutation None (view_plain d3 row)), d3)"
  using assms(1)
  by (simp_all add: createLead_stdio_def createLead_http_def createLead_sse_def select_stage_by_slug_def
      single_def count_leads_in_stage_def insert_lead_def Let_def leads_log_call row_def d3_def
      log_call_def)

lemma createLead_unresolved:
  assumes "single (filter (\<lambda>s. ps_slug s = slug_or_lead (stage_slug p)) (pipeline_stages d)) = Inl e"
  shows "isl (fst (createLead_stdio p d))" "isl (fst (createLead_http p d))" "isl (fst (createLead_sse p d))"
  using assms
  by (simp_all add: createLead_stdio_def createLead_http_def createLead_sse_def select_stage_by_slug_def)

lemma position_key_ignored:
  "parse c CreateLeadSchema (Some (JObj ((''position'', v) # kvs))) = parse c CreateLeadSchema (Some (JObj kvs))"
  "args_or_empty (Some (JObj ((''position'', v) # kvs))) = args_or_empty (Some (JObj kvs))"
  by (simp_all add: parse_def CreateLeadSchema_def field_issues_def field_output_def args_or_empty_def
      as_params_def get_str_def get_num_def get_obj_def)

lemma invoke_http_position_key_ignored:
  "invoke_http wrap tool (Some (JObj ((''position'', v) # kvs))) d = invoke_http wrap tool (Some (JObj kvs)) d"
  unfolding invoke_http_def position_key_ignored ..

text \<open>
  C2. Whenever create_lead succeeds, in any of the three handlers, its stage slug (or
  the default) resolved to exactly one stage, exactly one lead was appended to the
  leads, it is in that stage, and its position is the number of leads that were in that
  stage when the handler counted them. The position is not an input: the handlers read
  no position from their arguments, and a \<open>position\<close> put into the argument object of
  a call changes nothing, in any transport.
\<close>

theorem create_lead_position:
  assumes "h = createLead_stdio \<or> h = createLead_http \<or> h = createLead_sse"
    and "h p d = (Inr r, d')"
  shows "(\<exists>stage row.
            filter (\<lambda>s. ps_slug s = slug_or_lead (stage_slug p)) (pipeline_stages d) = [stage] \<and>
            leads d' = leads d @ [row] \<and>
            l_stage_id row = Some (ps_id stage) \<and>
            l_position row = int (length (filter (\<lambda>l. l_stage_id l = Some (ps_id stage)) (leads d)))) \<and>
         call_tool_stdio c ''create_lead'' (Some (JObj ((''position'', v) # kvs))) d =
           call_tool_stdio c ''create_lead'' (Some (JObj kvs)) d \<and>
         call_tool_sse c ''create_lead'' (Some (JObj ((''position'', v) # kvs))) d =
           call_tool_sse c ''create_lead'' (Some (JObj kvs)) d \<and>
         mcp_post (tools_call ''create_lead'' (Some (JObj ((''position'', v) # kvs)))) d =
           mcp_post (tools_call ''create_lead'' (Some (JObj kvs))) d"
proof -
  let ?rows = "filter (\<lambda>s. ps_slug s = slug_or_lead (stage_slug p)) (pipeline_stages d)"
  from assms have ok: "\<not> isl (fst (h p d))" by simp
  from single_cases [of ?rows] obtain stage where st: "?rows = [stage]"
    using createLead_unresolved [of p d PGRST116] ok assms(1) by auto
  from assms have main: "\<exists>stage row.
            filter (\<lambda>s. ps_slug s = slug_or_lead (stage_slug p)) (pipeline_stages d) = [stage] \<and>
            leads d' = leads d @ [row] \<and>
            l_stage_id row = Some (ps_id stage) \<and>
            l_position row = int (length (filter (\<lambda>l. l_stage_id l = Some (ps_id stage)) (leads d)))"
    using createLead_closed [OF st]
    by (auto simp: st leads_log_call new_lead_def)
  have a: "call_tool_stdio c ''create_lead'' (Some (JObj ((''position'', v) # kvs))) d =
           call_tool_stdio c ''create_lead'' (Some (JObj kvs)) d"
    by (simp add: call_tool_stdio_def parsed_def position_key_ignored)
  have b: "call_tool_sse c ''create_lead'' (Some (JObj ((''position'', v) # kvs))) d =
           call_tool_sse c ''create_lead'' (Some (JObj kvs)) d"
    by (simp add: call_tool_sse_def parsed_def position_key_ignored)
  have e: "mcp_post (tools_call ''create_lead'' (Some (JObj ((''position'', v) # kvs)))) d =
           mcp_post (tools_call ''create_lead'' (Some (JObj kvs))) d"
    by (simp add: mcp_post_def tools_call_def invoke_http_position_key_ignored)
  from main a b e show ?thesis by blast
qed

theorem create_lead_position_witness:
  "\<not> isl (fst (createLead_http (no_params\<lparr>name := Some ''Dora'', vendedor_id := Some (uuid 9)\<rparr>) fixture)) \<and>
   l_position (last (leads (snd (createLead_http (no_params\<lparr>name := Some ''Dora'', vendedor_id := Some (uuid 9)\<rparr>) fixture)))) = 2"
proof -
  let ?p = "no_params\<lparr>name := Some ''Dora'', vendedor_id := Some (uuid 9)\<rparr>"
  have st: "filter (\<lambda>s. ps_slug s = slug_or_lead (stage_slug ?p)) (pipeline_stages fixture) = [stage_lead]"
    by code_simp
  have n: "length (filter (\<lambda>l. l_stage_id l = Some (ps_id stage_lead)) (leads fixture)) = 2"
    by code_simp
  obtain r d' where e: "createLead_http ?p fixture = (Inr r, d')"
    using createLead_closed(2) [OF st] by blast
  have "\<exists>stage row.
            filter (\<lambda>s. ps_slug s = slug_or_lead (stage_slug ?p)) (pipeline_stages fixture) = [stage] \<and>
            leads d' = leads fixture @ [row] \<and>
            l_stage_id row = Some (ps_id stage) \<and>
            l_position row = int (length (filter (\<lambda>l. l_stage_id l = Some (ps_id stage)) (leads fixture)))"
    using create_lead_position [of createLead_http ?p fixture r d'] e by blast
  then obtain row where "leads d' = leads fixture @ [row]"
      and "l_position row = int (length (filter (\<lambda>l. l_stage_id l = Some (ps_id stage_lead)) (leads fixture)))"
    using st by auto
  then show ?thesis
    using e n by simp
qed

section \<open>Arguments that do not fit the declared shape, tool names that are not registered\<close>


lemma parsed_failure:
  "parse c shape args = Inl e \<Longrightarrow> parsed c shape args handler d = (Inl e, d)"
  by (simp add: parsed_def)

text \<open>
  C8, at a tool call that lacks a required field: update_lead_custom_fields with a
  lead id and no \<open>custom_fields\<close>. index.ts and the event-stream server refuse it
  with a validation error naming the field, and leave the backend untouched. server.ts
  has no validation: \<open>POST /mcp\<close> hands the arguments to the handler, which reads the
  lead, writes it back and answers 200.
\<close>

theorem http_unvalidated_arguments:
  "call_tool_stdio example_checks ''update_lead_custom_fields'' (Some (JObj [(''lead_id'', JStr (uuid 1))])) fixture =
     (Inl (ValidationError [(''custom_fields'', ''required'')]), fixture) \<and>
   call_tool_sse example_checks ''update_lead_custom_fields'' (Some (JObj [(''lead_id'', JStr (uuid 1))])) fixture =
     (Inl (ValidationError [(''custom_fields'', ''required'')]), fixture) \<and>
   fst (mcp_post (tools_call ''update_lead_custom_fields'' (Some (JObj [(''lead_id'', JStr (uuid 1))]))) fixture) =
     (200, Inr (CallResult (Mutation None \<lparr>lv_row = lead1, lv_joined = []\<rparr>))) \<and>
   calls (snd (mcp_post (tools_call ''update_lead_custom_fields'' (Some (JObj [(''lead_id'', JStr (uuid 1))]))) fixture)) =
     [Select Leads, Update Leads]"
proof -
  have v: "parse example_checks UpdateLeadCustomFieldsSchema (Some (JObj [(''lead_id'', JStr (uuid 1))])) =
             Inl (ValidationError [(''custom_fields'', ''required'')])"
    by code_simp
  have a: "call_tool_stdio example_checks ''update_lead_custom_fields'' (Some (JObj [(''lead_id'', JStr (uuid 1))])) fixture =
             (Inl (ValidationError [(''custom_fields'', ''required'')]), fixture)"
    unfolding call_tool_stdio_def parsed_def v by simp
  have b: "call_tool_sse example_checks ''update_lead_custom_fields'' (Some (JObj [(''lead_id'', JStr (uuid 1))])) fixture =
             (Inl (ValidationError [(''custom_fields'', ''required'')]), fixture)"
    unfolding call_tool_sse_def parsed_def v by simp
  have c: "fst (mcp_post (tools_call ''update_lead_custom_fields'' (Some (JObj [(''lead_id'', JStr (uuid 1))]))) fixture) =
     (200, Inr (CallResult (Mutation None \<lparr>lv_row = lead1, lv_joined = []\<rparr>)))"
    by code_simp
  have d: "calls (snd (mcp_post (tools_call ''update_lead_custom_fields'' (Some (JObj [(''lead_id'', JStr (uuid 1))]))) fixture)) =
     [Select Leads, Update Leads]"
    by code_simp
  from a b c d show ?thesis by blast
qed

text \<open>
  C9, at the tool name "constructor", which is none of the seven. index.ts and the
  event-stream server answer "Unknown tool". In server.ts the lookup \<open>TOOLS[name]\<close>
  finds the function every object inherits under that name, the check \<open>!tool\<close> passes,
  and calling its missing \<open>handler\<close> throws: the answer is status 500 with the
  message of the TypeError, not "Tool not found". No transport calls the backend.
\<close>

theorem http_inherited_tool_name:
  "''constructor'' \<notin> set tool_names \<and>
   call_tool_stdio example_checks ''constructor'' (Some (JObj [])) fixture =
     (Inl (UnknownTool ''Unknown tool: constructor''), fixture) \<and>
   call_tool_sse example_checks ''constructor'' (Some (JObj [])) fixture =
     (Inl (UnknownTool ''Unknown tool: constructor''), fixture) \<and>
   mcp_post (tools_call ''constructor'' (Some (JObj []))) fixture =
     ((500, Inl (TypeError ''tool.handler is not a function'')), fixture)"
  by (simp add: tool_names_def call_tool_stdio_def call_tool_sse_def mcp_post_def tools_call_def
      invoke_http_def TOOLS_def tpl_def object_prototype_keys_def)

lemma unregistered_tool_stdio_sse:
  assumes "tool \<notin> set tool_names"
  shows "call_tool_stdio c tool args d = (Inl (UnknownTool (''Unknown tool: '' @ tool)), d)"
    and "call_tool_sse c tool args d = (Inl (UnknownTool (''Unknown tool: '' @ tool)), d)"
  using assms by (simp_all add: tool_names_def call_tool_stdio_def call_tool_sse_def)

lemma unregistered_tool_http:
  assumes "tool \<notin> set tool_names"
  shows "mcp_post (tools_call tool args) d =
           (if tool \<in> set object_prototype_keys
            then ((500, Inl (TypeError ''tool.handler is not a function'')), d)
            else ((400, Inl (UnknownTool (''Tool not found: '' @ tool))), d))"
  using assms
  by (simp add: tool_names_def mcp_post_def tools_call_def invoke_http_def TOOLS_def tpl_def)

section \<open>The three transports compared\<close>







lemma tables_log_call [simp]: "tables (log_call c d) = tables d"
  by (simp add: tables_def log_call_def)


lemma same_outcome_Inl [simp]: "same_outcome (Inl e) (Inl e')"
  by (simp add: same_outcome_def)

lemma same_outcome_Mutation [simp]:
  "same_outcome (Inr (Mutation m v)) (Inr (Mutation m' v')) \<longleftrightarrow> lv_row v = lv_row v'"
  by (cases v, cases v') (simp add: same_outcome_def)

lemma same_outcome_refl [simp]: "same_outcome x x"
  by (cases x) (simp_all add: same_outcome_def)





lemma lv_row_views [simp]:
  "lv_row (view_plain d l) = l" "lv_row (view_stage cols d l) = l"
  by (simp_all add: view_plain_def view_stage_def)





















section \<open>get_pipeline_stats\<close>










text \<open>
  Why the inherited names are set apart: a lead whose stage has the slug "constructor"
  finds \<open>stats[slug]\<close> truthy before any entry exists, so none is created and the
  lead is counted nowhere in the result.
\<close>

lemma inherited_slug_is_not_counted:
  "fst (getPipelineStats_stdio
          (fixture\<lparr>pipeline_stages := [stage_lead\<lparr>ps_slug := ''constructor''\<rparr>, stage_fechado]\<rparr>)) =
     Inr (Stats [(''fechado'', \<lparr>st_count = 1, st_total_value = Num 0, st_stage_name = Some ''Fechado''\<rparr>)])"
  by code_simp


end
